theory Spec2Isabelle
  imports Main "HOL-Library.Sublist"
begin

section \<open>Values, failures and the platform\<close>

text \<open>
  The adapter \<open>onCallGenkit\<close> (file \<open>azure_functions.ts\<close>) turns a Genkit flow into an
  Azure Functions HTTP handler. This theory embeds its request decoder, CORS builder,
  context resolver, error response builder, the two handlers and the context provider
  helpers, and proves properties of them.

  JavaScript values that travel through the adapter (decoded inputs, flow outputs, stream
  chunks, context fields) are modelled by the JSON data model. An object is a finite
  dictionary; it is a map from property names to values. Numbers are outside every
  property proved here; integers stand for them. \<open>JNative\<close> stands for a built-in object
  or function of the runtime, by name (\<open>Object\<close>, \<open>Object.prototype\<close> and its methods): not
  a JSON value, but what a property lookup on a plain object returns for a name that the
  object inherits.
\<close>

datatype json =
    JNull
  | JBool bool
  | JNum int
  | JStr string
  | JArr "json list"
  | JObj "string \<Rightarrow> json option"
  | JNative string

type_synonym object = "string \<Rightarrow> json option"

text \<open>
  What a \<open>throw\<close> can raise: \<open>new UserFacingError(status, message)\<close>, any other instance of
  \<open>Error\<close> (with its message), or a value that is not an \<open>Error\<close> at all. The source tells
  the last case apart with \<open>error instanceof Error\<close>.
\<close>

datatype thrown =
    UserFacingError string string
  | Error string
  | NonError json

fun instanceofError :: "thrown \<Rightarrow> bool" where
  "instanceofError (UserFacingError st msg) = True"
| "instanceofError (Error msg) = True"
| "instanceofError (NonError v) = False"

text \<open>
  Built-ins and library functions the adapter calls but does not define: \<open>JSON.parse\<close>
  (\<open>None\<close> when it throws a \<open>SyntaxError\<close>), \<open>JSON.stringify\<close>, the conversion \<open>String(v)\<close>,
  and \<open>getHttpStatus\<close> and \<open>getCallableJSON\<close> of \<open>genkit/context\<close>. They are parameters of
  the model; every theorem holds for all of them.
\<close>

record platform =
  JSON_parse :: "string \<Rightarrow> json option"
  JSON_stringify :: "json \<Rightarrow> string"
  String_of :: "json \<Rightarrow> string"
  getHttpStatus :: "thrown \<Rightarrow> int"
  getCallableJSON :: "thrown \<Rightarrow> json"

text \<open>\<open>error instanceof Error ? error : new Error(String(error))\<close>\<close>

fun asError :: "platform \<Rightarrow> thrown \<Rightarrow> thrown" where
  "asError P (NonError v) = Error (String_of P v)"
| "asError P e = e"

text \<open>JavaScript truthiness, \<open>typeof\<close> and \<open>"data" in v\<close> on JSON values.\<close>

fun truthy :: "json \<Rightarrow> bool" where
  "truthy JNull = False"
| "truthy (JBool b) = b"
| "truthy (JNum n) = (n \<noteq> 0)"
| "truthy (JStr s) = (s \<noteq> [])"
| "truthy (JArr xs) = True"
| "truthy (JObj m) = True"
| "truthy (JNative n) = True"

fun typeof :: "json \<Rightarrow> string" where
  "typeof JNull = ''object''"
| "typeof (JBool b) = ''boolean''"
| "typeof (JNum n) = ''number''"
| "typeof (JStr s) = ''string''"
| "typeof (JArr xs) = ''object''"
| "typeof (JObj m) = ''object''"
| "typeof (JNative n) = (if n = ''Object.prototype'' then ''object'' else ''function'')"

text \<open>
  \<open>"data" in parsed\<close>: an object has the property when the key is bound; the properties of
  an array are its indices and \<open>length\<close>, so it never has it. The source evaluates the
  operator only behind the \<open>typeof parsed === "object"\<close> guard, where it cannot throw.
\<close>

fun data_in :: "json \<Rightarrow> bool" where
  "data_in (JObj m) = (m ''data'' \<noteq> None)"
| "data_in v = False"

text \<open>\<open>parsed.data\<close>; an unbound property reads as \<open>undefined\<close>, never reached below.\<close>

fun get_data :: "json \<Rightarrow> json option" where
  "get_data (JObj m) = m ''data''"
| "get_data v = None"

section \<open>Requests\<close>

text \<open>
  The \<open>HttpRequest\<close> of Azure Functions, as far as the adapter reads it. \<open>http_method\<close> is
  \<open>request.method\<close>; \<open>headers\<close> are the
  entries that \<open>request.headers.forEach\<close> enumerates; \<open>body_text\<close> is the outcome of
  \<open>await request.text()\<close>, \<open>None\<close> when that promise rejects; \<open>query\<close> are the entries of
  \<open>new URL(request.url).searchParams\<close>; \<open>params\<close> are the route parameters.
\<close>

record HttpRequest =
  http_method :: string
  url :: string
  headers :: "(string \<times> string) list"
  body_text :: "string option"
  query :: "(string \<times> string) list"
  params :: "string \<Rightarrow> string option"

record InvocationContext =
  functionName :: string
  invocationId :: string

text \<open>\<open>String.prototype.toLowerCase\<close> on ASCII text (header names are ASCII tokens).\<close>

definition toLowerCase_char :: "char \<Rightarrow> char" where
  "toLowerCase_char c =
     (case map_of (zip ''ABCDEFGHIJKLMNOPQRSTUVWXYZ'' ''abcdefghijklmnopqrstuvwxyz'') c of
        None \<Rightarrow> c
      | Some l \<Rightarrow> l)"

definition toLowerCase :: "string \<Rightarrow> string" where
  "toLowerCase s = map toLowerCase_char s"

text \<open>\<open>Headers.get(name)\<close>: the lookup ignores the case of header names.\<close>

definition Headers_get :: "(string \<times> string) list \<Rightarrow> string \<Rightarrow> string option" where
  "Headers_get hs name = map_of (map (\<lambda>(k, v). (toLowerCase k, v)) hs) (toLowerCase name)"

text \<open>\<open>String.prototype.includes\<close>\<close>

fun String_includes :: "string \<Rightarrow> string \<Rightarrow> bool" where
  "String_includes [] sub = (sub = [])"
| "String_includes (c # cs) sub = (prefix sub (c # cs) \<or> String_includes cs sub)"

text \<open>\<open>Array.prototype.join\<close>\<close>

fun join :: "string list \<Rightarrow> string \<Rightarrow> string" where
  "join [] sep = []"
| "join [x] sep = x"
| "join (x # y # ys) sep = x @ sep @ join (y # ys) sep"

section \<open>Request decoder\<close>

text \<open>
  \<open>parseRequestBody\<close>: a body that cannot be read or is empty decodes to \<open>{}\<close>; otherwise
  the text goes through \<open>JSON.parse\<close>, whose failure is rethrown as a \<open>UserFacingError\<close>;
  a parsed object with the property \<open>data\<close> is unwrapped. (Behind \<open>data_in\<close> the property
  is bound, so the \<open>None\<close> case of \<open>get_data\<close> below is never taken.)
\<close>

definition parseRequestBody :: "platform \<Rightarrow> HttpRequest \<Rightarrow> thrown + json" where
  "parseRequestBody P request =
     (case body_text request of
        None \<Rightarrow> Inr (JObj Map.empty)
      | Some bodyText \<Rightarrow>
          if bodyText = [] then Inr (JObj Map.empty)
          else (case JSON_parse P bodyText of
                  None \<Rightarrow> Inl (UserFacingError ''INVALID_ARGUMENT'' ''Invalid JSON in request body'')
                | Some parsed \<Rightarrow>
                    if truthy parsed \<and> typeof parsed = ''object'' \<and> data_in parsed
                    then (case get_data parsed of
                            Some d \<Rightarrow> Inr d
                          | None \<Rightarrow> Inr parsed)
                    else Inr parsed))"

text \<open>\<open>getRequestOrigin\<close>: \<open>request.headers.get("origin") || undefined\<close>\<close>

definition getRequestOrigin :: "HttpRequest \<Rightarrow> string option" where
  "getRequestOrigin request =
     (case Headers_get (headers request) ''origin'' of
        None \<Rightarrow> None
      | Some v \<Rightarrow> if v = [] then None else Some v)"

text \<open>
  A \<open>Record<string, string>\<close> is a plain JavaScript object: the map holds its own
  properties, and it inherits the members of \<open>Object.prototype\<close>, which are functions
  except for the accessor \<open>__proto__\<close>, whose value is the prototype object itself.
\<close>

definition Object_prototype :: "string \<Rightarrow> json option" where
  "Object_prototype key =
     (if key = ''constructor'' then Some (JNative ''Object'')
      else if key = ''__proto__'' then Some (JNative ''Object.prototype'')
      else if key \<in> set [''toString'', ''toLocaleString'', ''valueOf'', ''hasOwnProperty'',
                           ''isPrototypeOf'', ''propertyIsEnumerable'', ''__defineGetter__'',
                           ''__defineSetter__'', ''__lookupGetter__'', ''__lookupSetter__'']
      then Some (JNative (''Object.prototype.'' @ key))
      else None)"

text \<open>
  The read \<open>obj[key]\<close>: an own property, else the inherited member, else \<open>undefined\<close>
  (\<open>None\<close>).
\<close>

definition get_property :: "(string \<Rightarrow> string option) \<Rightarrow> string \<Rightarrow> json option" where
  "get_property obj key =
     (case obj key of
        Some v \<Rightarrow> Some (JStr v)
      | None \<Rightarrow> Object_prototype key)"

text \<open>
  The assignment \<open>obj[key] = value\<close> of a string: it creates or overwrites the own
  property, except for the key \<open>__proto__\<close>, where it runs the inherited setter, which
  ignores a value that is not an object.
\<close>

definition set_property ::
  "(string \<Rightarrow> string option) \<Rightarrow> string \<Rightarrow> string \<Rightarrow> (string \<Rightarrow> string option)" where
  "set_property obj key v = (if key = ''__proto__'' then obj else obj(key \<mapsto> v))"

text \<open>\<open>normalizeHeaders\<close>: the \<open>forEach\<close> loop stores each value under the lower-cased name.\<close>

definition normalizeHeaders :: "HttpRequest \<Rightarrow> (string \<Rightarrow> string option)" where
  "normalizeHeaders request =
     fold (\<lambda>(key, v) result. set_property result (toLowerCase key) v)
       (headers request) Map.empty"

definition getQueryParams :: "HttpRequest \<Rightarrow> (string \<Rightarrow> string option)" where
  "getQueryParams request =
     fold (\<lambda>(key, v) result. set_property result key v) (query request) Map.empty"

text \<open>The \<open>RequestData\<close> of \<open>genkit/context\<close> that a context provider receives.\<close>

record RequestData =
  rd_method :: string
  rd_headers :: "string \<Rightarrow> string option"
  rd_input :: json

definition toRequestData :: "HttpRequest \<Rightarrow> json \<Rightarrow> RequestData" where
  "toRequestData request input =
     \<lparr>rd_method = http_method request, rd_headers = normalizeHeaders request, rd_input = input\<rparr>"

section \<open>CORS policy builder\<close>

datatype origin_spec = OriginString string | OriginList "string list"

record CorsOptions =
  origin :: "origin_spec option"
  methods :: "string list option"
  allowedHeaders :: "string list option"
  exposedHeaders :: "string list option"
  credentials :: "bool option"
  maxAge :: "int option"

text \<open>The option \<open>cors?: CorsOptions | boolean\<close>; \<open>None\<close> is \<open>undefined\<close>.\<close>

datatype cors_setting = CorsBool bool | Cors CorsOptions

definition default_CorsOptions :: CorsOptions where
  "default_CorsOptions =
     \<lparr>origin = None, methods = None, allowedHeaders = None, exposedHeaders = None,
      credentials = None, maxAge = None\<rparr>"

definition buildCorsHeaders ::
  "platform \<Rightarrow> cors_setting option \<Rightarrow> string option \<Rightarrow> (string \<Rightarrow> string option)" where
  "buildCorsHeaders P corsOptions requestOrigin =
     (case corsOptions of
        Some (CorsBool False) \<Rightarrow> Map.empty
      | _ \<Rightarrow>
        let opts = (case corsOptions of Some (Cors c) \<Rightarrow> c | _ \<Rightarrow> default_CorsOptions);
            headers0 = [''Content-Type'' \<mapsto> ''application/json''];
            headers1 =
              (case (case origin opts of None \<Rightarrow> OriginString ''*'' | Some og \<Rightarrow> og) of
                 OriginList allowed \<Rightarrow>
                   (case requestOrigin of
                      None \<Rightarrow> headers0
                    | Some ro \<Rightarrow>
                        if ro \<noteq> [] \<and> ro \<in> set allowed
                        then headers0(''Access-Control-Allow-Origin'' \<mapsto> ro)
                        else headers0)
               | OriginString og \<Rightarrow> headers0(''Access-Control-Allow-Origin'' \<mapsto> og));
            headers2 = headers1(''Access-Control-Allow-Methods'' \<mapsto>
              join (case methods opts of None \<Rightarrow> [''POST'', ''OPTIONS''] | Some ms \<Rightarrow> ms) '', '');
            headers3 = headers2(''Access-Control-Allow-Headers'' \<mapsto>
              join (case allowedHeaders opts of
                      None \<Rightarrow> [''Content-Type'', ''Authorization'']
                    | Some hs \<Rightarrow> hs) '', '');
            headers4 =
              (case exposedHeaders opts of
                 None \<Rightarrow> headers3
               | Some es \<Rightarrow>
                   if length es > 0
                   then headers3(''Access-Control-Expose-Headers'' \<mapsto> join es '', '')
                   else headers3);
            headers5 =
              (if credentials opts = Some True
               then headers4(''Access-Control-Allow-Credentials'' \<mapsto> ''true'')
               else headers4)
        in headers5(''Access-Control-Max-Age'' \<mapsto>
             String_of P (JNum (case maxAge opts of None \<Rightarrow> 86400 | Some a \<Rightarrow> a))))"

section \<open>Options, flows and responses\<close>

text \<open>
  Context providers, the \<open>onError\<close> callback, API key validators and flows are user code:
  they may have effects and may throw. Each is a function on an explicit world state
  \<open>'s\<close> that returns the failure (\<open>Inl\<close>) or the result (\<open>Inr\<close>) with the new state; \<open>await\<close>
  runs them one after the other.
\<close>

type_synonym 's ContextProvider = "RequestData \<Rightarrow> 's \<Rightarrow> (thrown + object) \<times> 's"

record onError_result =
  statusCode :: int
  message :: string

text \<open>
  A flow: \<open>run\<close> resolves to the result or rejects; \<open>stream\<close> yields the chunks produced
  before the end of the iteration and then either the final output or the failure that
  ended the streaming (thrown by \<open>flow.stream\<close>, by the iteration or by \<open>await output\<close>).
\<close>

record 's Flow =
  run :: "json \<Rightarrow> object \<Rightarrow> 's \<Rightarrow> (thrown + json) \<times> 's"
  stream :: "json \<Rightarrow> object \<Rightarrow> 's \<Rightarrow> (json list \<times> (thrown + json)) \<times> 's"

text \<open>
  \<open>AzureFunctionsOptions\<close>, the fields that the handlers read. (\<open>authLevel\<close>, \<open>httpMethods\<close>
  and \<open>route\<close> only reach the registration call \<open>app.http\<close>; \<open>debug\<close> only switches log
  lines on, and logging is left out of the model.)
\<close>

record 's AzureFunctionsOptions =
  cors :: "cors_setting option"
  contextProvider :: "'s ContextProvider option"
  onError :: "(thrown \<Rightarrow> 's \<Rightarrow> (thrown + onError_result) \<times> 's) option"
  streaming :: bool

text \<open>
  The body of a streaming response: the records passed to \<open>controller.enqueue\<close>, in order
  (the \<open>TextEncoder\<close> turns each into its bytes), and whether \<open>controller.close()\<close> was called.
\<close>

datatype ReadableStream = ReadableStream (enqueued: "string list") (closed: bool)

record HttpResponseInit =
  status :: int
  response_headers :: "string \<Rightarrow> string option"
  jsonBody :: "json option"
  body :: "ReadableStream option"

section \<open>Context resolver\<close>

definition record_json :: "(string \<Rightarrow> string option) \<Rightarrow> json" where
  "record_json r = JObj (\<lambda>k. map_option JStr (r k))"

definition buildAzureFunctionsContext :: "HttpRequest \<Rightarrow> InvocationContext \<Rightarrow> object" where
  "buildAzureFunctionsContext request azureContext =
     [''azureFunctions'' \<mapsto> JObj
        [''request'' \<mapsto> JObj
           [''url'' \<mapsto> JStr (url request),
            ''headers'' \<mapsto> record_json (normalizeHeaders request),
            ''query'' \<mapsto> record_json (getQueryParams request),
            ''params'' \<mapsto> record_json (params request)],
         ''context'' \<mapsto> JObj
           [''functionName'' \<mapsto> JStr (functionName azureContext),
            ''invocationId'' \<mapsto> JStr (invocationId azureContext)]]]"

text \<open>
  \<open>resolveActionContext\<close>: the object spread \<open>{ ...azureFunctionsContext, ...providerContext }\<close>
  is map override, the right operand winning.
\<close>

definition resolveActionContext ::
  "'s AzureFunctionsOptions \<Rightarrow> HttpRequest \<Rightarrow> InvocationContext \<Rightarrow> json \<Rightarrow> 's
     \<Rightarrow> (thrown + object) \<times> 's" where
  "resolveActionContext opts request azureContext input s =
     (let azureFunctionsContext = buildAzureFunctionsContext request azureContext
      in case contextProvider opts of
           Some provider \<Rightarrow>
             (case provider (toRequestData request input) s of
                (Inl e, s') \<Rightarrow> (Inl e, s')
              | (Inr providerContext, s') \<Rightarrow> (Inr (azureFunctionsContext ++ providerContext), s'))
         | None \<Rightarrow> (Inr azureFunctionsContext, s))"

section \<open>Error response builder\<close>

definition buildErrorResponse ::
  "platform \<Rightarrow> 's AzureFunctionsOptions \<Rightarrow> thrown \<Rightarrow> (string \<Rightarrow> string option) \<Rightarrow> 's
     \<Rightarrow> (thrown + HttpResponseInit) \<times> 's" where
  "buildErrorResponse P opts error corsHeaders s =
     (case onError opts of
        Some handler \<Rightarrow>
          (case handler (asError P error) s of
             (Inl e, s') \<Rightarrow> (Inl e, s')
           | (Inr customError, s') \<Rightarrow>
               (Inr \<lparr>status = statusCode customError,
                     response_headers = corsHeaders,
                     jsonBody = Some (JObj [''error'' \<mapsto> JObj
                       [''status'' \<mapsto> JStr ''INTERNAL'',
                        ''message'' \<mapsto> JStr (message customError)]]),
                     body = None\<rparr>, s'))
      | None \<Rightarrow>
          (Inr \<lparr>status = getHttpStatus P error,
                response_headers = corsHeaders,
                jsonBody = Some (getCallableJSON P error),
                body = None\<rparr>, s))"

section \<open>Handlers\<close>

text \<open>
  A handler returns its \<open>HttpResponseInit\<close>, or rejects (\<open>Inl\<close>) when the \<open>onError\<close> callback
  itself throws. The non-streaming handler:
\<close>

definition standardHandler ::
  "platform \<Rightarrow> 's AzureFunctionsOptions \<Rightarrow> 's Flow \<Rightarrow> HttpRequest \<Rightarrow> InvocationContext \<Rightarrow> 's
     \<Rightarrow> (thrown + HttpResponseInit) \<times> 's" where
  "standardHandler P opts flow request azureContext s =
     (let requestOrigin = getRequestOrigin request;
          corsHeaders = buildCorsHeaders P (cors opts) requestOrigin
      in if http_method request = ''OPTIONS''
         then (Inr \<lparr>status = 204, response_headers = corsHeaders,
                     jsonBody = None, body = None\<rparr>, s)
         else
           (case parseRequestBody P request of
              Inl error \<Rightarrow> buildErrorResponse P opts error corsHeaders s
            | Inr input \<Rightarrow>
                (case resolveActionContext opts request azureContext input s of
                   (Inl error, s1) \<Rightarrow> buildErrorResponse P opts error corsHeaders s1
                 | (Inr actionContext, s1) \<Rightarrow>
                     (case run flow input actionContext s1 of
                        (Inl error, s2) \<Rightarrow> buildErrorResponse P opts error corsHeaders s2
                      | (Inr result, s2) \<Rightarrow>
                          (Inr \<lparr>status = 200, response_headers = corsHeaders,
                                jsonBody = Some (JObj [''result'' \<mapsto> result]),
                                body = None\<rparr>, s2)))))"

text \<open>One Server-Sent-Events record: \<open>`data: ${JSON.stringify(v)}\n\n`\<close>\<close>

definition sse :: "platform \<Rightarrow> json \<Rightarrow> string" where
  "sse P v = ''data: '' @ JSON_stringify P v @ ''\<newline>\<newline>''"

text \<open>
  The \<open>start(controller)\<close> callback of the \<open>ReadableStream\<close>: one record per chunk, then the
  record of the final output; a failure anywhere inside is caught, written as one more
  record from \<open>getCallableJSON(error)\<close>, and the stream is closed in both cases.
\<close>

definition start ::
  "platform \<Rightarrow> 's Flow \<Rightarrow> json \<Rightarrow> object \<Rightarrow> 's \<Rightarrow> ReadableStream \<times> 's" where
  "start P flow input actionContext s =
     (case stream flow input actionContext s of
        ((chunks, outcome), s') \<Rightarrow>
          (ReadableStream
             (map (\<lambda>chunk. sse P (JObj [''message'' \<mapsto> chunk])) chunks @
              [case outcome of
                 Inr result \<Rightarrow> sse P (JObj [''result'' \<mapsto> result])
               | Inl error \<Rightarrow> sse P (getCallableJSON P error)])
             True, s'))"

definition streamingHandler ::
  "platform \<Rightarrow> 's AzureFunctionsOptions \<Rightarrow> 's Flow \<Rightarrow> HttpRequest \<Rightarrow> InvocationContext \<Rightarrow> 's
     \<Rightarrow> (thrown + HttpResponseInit) \<times> 's" where
  "streamingHandler P opts flow request azureContext s =
     (let requestOrigin = getRequestOrigin request;
          corsHeaders = buildCorsHeaders P (cors opts) requestOrigin
      in if http_method request = ''OPTIONS''
         then (Inr \<lparr>status = 204, response_headers = corsHeaders,
                     jsonBody = None, body = None\<rparr>, s)
         else
           (case parseRequestBody P request of
              Inl error \<Rightarrow> buildErrorResponse P opts error corsHeaders s
            | Inr input \<Rightarrow>
                (case resolveActionContext opts request azureContext input s of
                   (Inl error, s1) \<Rightarrow> buildErrorResponse P opts error corsHeaders s1
                 | (Inr actionContext, s1) \<Rightarrow>
                     (let acceptHeader =
                            (case Headers_get (headers request) ''accept'' of
                               None \<Rightarrow> []
                             | Some a \<Rightarrow> a);
                          clientWantsStreaming = String_includes acceptHeader ''text/event-stream''
                      in if clientWantsStreaming
                         then
                           (case start P flow input actionContext s1 of
                              (readableStream, s2) \<Rightarrow>
                                (Inr \<lparr>status = 200,
                                      response_headers = corsHeaders
                                        (''Content-Type'' \<mapsto> ''text/event-stream'',
                                         ''Cache-Control'' \<mapsto> ''no-cache'',
                                         ''Connection'' \<mapsto> ''keep-alive''),
                                      jsonBody = None,
                                      body = Some readableStream\<rparr>, s2))
                         else
                           (case run flow input actionContext s1 of
                              (Inl error, s2) \<Rightarrow> buildErrorResponse P opts error corsHeaders s2
                            | (Inr result, s2) \<Rightarrow>
                                (Inr \<lparr>status = 200, response_headers = corsHeaders,
                                      jsonBody = Some (JObj [''result'' \<mapsto> result]),
                                      body = None\<rparr>, s2))))))"

text \<open>\<open>opts.streaming ? streamingHandler : standardHandler\<close>\<close>

definition handler ::
  "platform \<Rightarrow> 's AzureFunctionsOptions \<Rightarrow> 's Flow \<Rightarrow> HttpRequest \<Rightarrow> InvocationContext \<Rightarrow> 's
     \<Rightarrow> (thrown + HttpResponseInit) \<times> 's" where
  "handler P opts flow =
     (if streaming opts then streamingHandler P opts flow else standardHandler P opts flow)"

section \<open>Context provider helpers\<close>

text \<open>
  \<open>expectedValueOrValidator: string | ((apiKey: string) => void | Promise<void>)\<close>; the
  validator is called with whatever the header lookup returned.
\<close>

datatype 's key_check =
    ExpectedValue string
  | Validator "json \<Rightarrow> 's \<Rightarrow> (thrown + unit) \<times> 's"

text \<open>
  Both helpers read \<open>request.headers[lowerHeaderName]\<close> and test the result with \<open>!value\<close>
  and \<open>!==\<close>; a string is falsy when empty, and an inherited member is never equal to a
  string.
\<close>

definition requireApiKey :: "string \<Rightarrow> 's key_check \<Rightarrow> 's ContextProvider" where
  "requireApiKey headerName expectedValueOrValidator request s =
     (let lowerHeaderName = toLowerCase headerName
      in case get_property (rd_headers request) lowerHeaderName of
           None \<Rightarrow>
             (Inl (UserFacingError ''UNAUTHENTICATED''
                     (''Missing required header: '' @ headerName)), s)
         | Some apiKey \<Rightarrow>
             if \<not> truthy apiKey
             then (Inl (UserFacingError ''UNAUTHENTICATED''
                          (''Missing required header: '' @ headerName)), s)
             else
               (case expectedValueOrValidator of
                  ExpectedValue expected \<Rightarrow>
                    if apiKey \<noteq> JStr expected
                    then (Inl (UserFacingError ''PERMISSION_DENIED'' ''Invalid API key''), s)
                    else (Inr [''auth'' \<mapsto> JObj [''apiKey'' \<mapsto> apiKey]], s)
                | Validator validate \<Rightarrow>
                    (case validate apiKey s of
                       (Inl e, s') \<Rightarrow> (Inl e, s')
                     | (Inr u, s') \<Rightarrow>
                         (Inr [''auth'' \<mapsto> JObj [''apiKey'' \<mapsto> apiKey]], s'))))"

definition requireHeader :: "string \<Rightarrow> string option \<Rightarrow> 's ContextProvider" where
  "requireHeader headerName expectedValue request s =
     (let lowerHeaderName = toLowerCase headerName
      in case get_property (rd_headers request) lowerHeaderName of
           None \<Rightarrow>
             (Inl (UserFacingError ''UNAUTHENTICATED''
                     (''Missing required header: '' @ headerName)), s)
         | Some v \<Rightarrow>
             if \<not> truthy v
             then (Inl (UserFacingError ''UNAUTHENTICATED''
                          (''Missing required header: '' @ headerName)), s)
             else if expectedValue \<noteq> None \<and> Some v \<noteq> map_option JStr expectedValue
             then (Inl (UserFacingError ''PERMISSION_DENIED''
                          (''Invalid value for header: '' @ headerName)), s)
             else (Inr Map.empty, s))"

definition allowAll :: "'s ContextProvider" where
  "allowAll request s = (Inr Map.empty, s)"

text \<open>The loop of \<open>allOf\<close>, with its accumulator \<open>mergedContext\<close>.\<close>

fun allOf_loop :: "'s ContextProvider list \<Rightarrow> object \<Rightarrow> 's ContextProvider" where
  "allOf_loop [] mergedContext request s = (Inr mergedContext, s)"
| "allOf_loop (provider # providers) mergedContext request s =
     (case provider request s of
        (Inl e, s') \<Rightarrow> (Inl e, s')
      | (Inr context, s') \<Rightarrow> allOf_loop providers (mergedContext ++ context) request s')"

definition allOf :: "'s ContextProvider list \<Rightarrow> 's ContextProvider" where
  "allOf providers = allOf_loop providers Map.empty"

text \<open>
  The loop of \<open>anyOf\<close>, with its variable \<open>lastError\<close>; after the loop,
  \<open>throw lastError || new UserFacingError("UNAUTHENTICATED", "Unauthorized")\<close>.
\<close>

fun anyOf_loop ::
  "platform \<Rightarrow> 's ContextProvider list \<Rightarrow> thrown option \<Rightarrow> 's ContextProvider" where
  "anyOf_loop P [] lastError request s =
     (case lastError of
        Some e \<Rightarrow> (Inl e, s)
      | None \<Rightarrow> (Inl (UserFacingError ''UNAUTHENTICATED'' ''Unauthorized''), s))"
| "anyOf_loop P (provider # providers) lastError request s =
     (case provider request s of
        (Inr context, s') \<Rightarrow> (Inr context, s')
      | (Inl error, s') \<Rightarrow> anyOf_loop P providers (Some (asError P error)) request s')"

definition anyOf :: "platform \<Rightarrow> 's ContextProvider list \<Rightarrow> 's ContextProvider" where
  "anyOf P providers = anyOf_loop P providers None"

section \<open>Example inputs\<close>

text \<open>
  Concrete inputs on which the theorems below are instantiated. The functions of
  \<open>example_platform\<close> stand in for the built-ins on the values used in the examples:
  \<open>example_stringify\<close> renders the records \<open>{message: string}\<close> and
  \<open>{result: {joke: string}}\<close> of the streaming example (strings that need no escaping) and
  is not meant for other values; \<open>example_getCallableJSON\<close> gives the flat
  \<open>{status, message}\<close> of \<open>genkit\<close>, with \<open>INTERNAL\<close> and "Internal Error" for a failure
  that is not a \<open>UserFacingError\<close>. The world state of the examples is a counter that the
  providers, \<open>joke_flow\<close> and the \<open>onError\<close> callback increment when they run.
\<close>

definition example_parse :: "string \<Rightarrow> json option" where
  \<open>example_parse s =
     (if s = ''{"data":{"subject":"cats"}}'' then Some (JObj [''data'' \<mapsto> JObj [''subject'' \<mapsto> JStr ''cats'']])
      else if s = ''["cats"]'' then Some (JArr [JStr ''cats''])
      else None)\<close>

definition example_stringify :: "json \<Rightarrow> string" where
  \<open>example_stringify v =
     (case v of
        JObj m \<Rightarrow>
          (case (m ''message'', m ''result'', m ''status'') of
             (Some (JStr c), None, None) \<Rightarrow> ''{"message":"'' @ c @ ''"}''
           | (None, Some (JObj r), None) \<Rightarrow>
               (case r ''joke'' of
                  Some (JStr j) \<Rightarrow> ''{"result":{"joke":"'' @ j @ ''"}}''
                | _ \<Rightarrow> ''{"result":{}}'')
           | _ \<Rightarrow> ''{}'')
      | _ \<Rightarrow> ''null'')\<close>

definition example_String_of :: "json \<Rightarrow> string" where
  "example_String_of v =
     (case v of
        JStr s \<Rightarrow> s
      | JNum n \<Rightarrow> if n = 86400 then ''86400'' else ''0''
      | _ \<Rightarrow> ''null'')"

definition example_getHttpStatus :: "thrown \<Rightarrow> int" where
  "example_getHttpStatus e =
     (case e of
        UserFacingError st msg \<Rightarrow>
          if st = ''INVALID_ARGUMENT'' then 400
          else if st = ''UNAUTHENTICATED'' then 401
          else if st = ''PERMISSION_DENIED'' then 403
          else 500
      | _ \<Rightarrow> 500)"

definition example_getCallableJSON :: "thrown \<Rightarrow> json" where
  "example_getCallableJSON e =
     (case e of
        UserFacingError st msg \<Rightarrow> JObj [''status'' \<mapsto> JStr st, ''message'' \<mapsto> JStr msg]
      | _ \<Rightarrow> JObj [''status'' \<mapsto> JStr ''INTERNAL'', ''message'' \<mapsto> JStr ''Internal Error''])"

definition example_platform :: platform where
  "example_platform =
     \<lparr>JSON_parse = example_parse, JSON_stringify = example_stringify,
      String_of = example_String_of, getHttpStatus = example_getHttpStatus,
      getCallableJSON = example_getCallableJSON\<rparr>"

definition example_request :: HttpRequest where
  \<open>example_request =
     \<lparr>http_method = ''POST'', url = ''https://app.example/api/jokeFlow'',
      headers = [(''Accept'', ''application/json, text/event-stream''),
                 (''Origin'', ''https://a.com''),
                 (''X-API-Key'', ''secret'')],
      body_text = Some ''{"data":{"subject":"cats"}}'',
      query = [], params = Map.empty\<rparr>\<close>

definition example_context :: InvocationContext where
  "example_context = \<lparr>functionName = ''jokeFlow'', invocationId = ''inv-1''\<rparr>"

definition joke_flow :: "nat Flow" where
  "joke_flow =
     \<lparr>run = (\<lambda>input ctx s. (Inr (JObj [''joke'' \<mapsto> JStr ''a b'']), Suc s)),
      stream = (\<lambda>input ctx s.
        (([JStr ''a'', JStr ''b''], Inr (JObj [''joke'' \<mapsto> JStr ''a b''])), Suc s))\<rparr>"

definition failing_flow :: "nat Flow" where
  "failing_flow =
     \<lparr>run = (\<lambda>input ctx s. (Inl (Error ''boom''), s)),
      stream = (\<lambda>input ctx s. (([JStr ''a''], Inl (Error ''boom'')), s))\<rparr>"

definition example_onError :: "thrown \<Rightarrow> nat \<Rightarrow> (thrown + onError_result) \<times> nat" where
  "example_onError e s = (Inr \<lparr>statusCode = 418, message = ''overridden''\<rparr>, Suc s)"

definition override_opts :: "nat AzureFunctionsOptions" where
  "override_opts =
     \<lparr>cors = None, contextProvider = None, onError = Some example_onError, streaming = True\<rparr>"

definition denies :: "nat ContextProvider" where
  "denies request s = (Inl (UserFacingError ''PERMISSION_DENIED'' ''Invalid API key''), Suc s)"

definition throws_string :: "nat ContextProvider" where
  "throws_string request s = (Inl (NonError (JStr ''nope'')), Suc s)"

definition grants_guest :: "nat ContextProvider" where
  "grants_guest request s = (Inr [''auth'' \<mapsto> JStr ''guest''], Suc s)"

definition shadowing_provider :: "nat ContextProvider" where
  "shadowing_provider request s =
     (Inr [''azureFunctions'' \<mapsto> JNull, ''auth'' \<mapsto> JStr ''guest''], Suc s)"

section \<open>Evaluation of the examples\<close>

lemmas example_defs =
  example_platform_def example_parse_def example_stringify_def example_String_of_def
  example_getHttpStatus_def example_getCallableJSON_def example_request_def
  example_context_def

lemma toLowerCase_examples [simp]:
  "toLowerCase ''X-API-Key'' = ''x-api-key''"
  "toLowerCase ''x-api-KEY'' = ''x-api-key''"
  "toLowerCase ''Accept'' = ''accept''"
  "toLowerCase ''accept'' = ''accept''"
  "toLowerCase ''Origin'' = ''origin''"
  "toLowerCase ''origin'' = ''origin''"
  by (simp_all add: toLowerCase_def toLowerCase_char_def)

section \<open>Properties of the request decoder\<close>

text \<open>
  C3. For every request body: an absent (unreadable) or empty body decodes to the empty
  object; a non-empty body that parses to an object with the key \<open>data\<close> decodes to the
  value of that key; every other successfully parsed value is returned as it is.
\<close>

theorem parseRequestBody_decodes:
  "(body_text request = None \<or> body_text request = Some [] \<longrightarrow>
      parseRequestBody P request = Inr (JObj Map.empty)) \<and>
   (body_text request = Some bodyText \<and> bodyText \<noteq> [] \<and>
    JSON_parse P bodyText = Some (JObj m) \<and> m ''data'' = Some d \<longrightarrow>
      parseRequestBody P request = Inr d) \<and>
   (body_text request = Some bodyText \<and> bodyText \<noteq> [] \<and>
    JSON_parse P bodyText = Some parsed \<and> (\<forall>m. parsed = JObj m \<longrightarrow> m ''data'' = None) \<longrightarrow>
      parseRequestBody P request = Inr parsed)"
  by (cases parsed) (auto simp: parseRequestBody_def)

theorem parseRequestBody_decodes_witness:
  \<open>parseRequestBody example_platform (example_request\<lparr>body_text := None\<rparr>) =
     Inr (JObj Map.empty) \<and>
   parseRequestBody example_platform (example_request\<lparr>body_text := Some []\<rparr>) =
     Inr (JObj Map.empty) \<and>
   JSON_parse example_platform ''{"data":{"subject":"cats"}}'' =
     Some (JObj [''data'' \<mapsto> JObj [''subject'' \<mapsto> JStr ''cats'']]) \<and>
   parseRequestBody example_platform example_request =
     Inr (JObj [''subject'' \<mapsto> JStr ''cats'']) \<and>
   JSON_parse example_platform ''["cats"]'' = Some (JArr [JStr ''cats'']) \<and>
   parseRequestBody example_platform (example_request\<lparr>body_text := Some ''["cats"]''\<rparr>) =
     Inr (JArr [JStr ''cats''])\<close>
  using
    parseRequestBody_decodes
      [where request = "example_request\<lparr>body_text := None\<rparr>" and P = example_platform]
    parseRequestBody_decodes
      [where request = "example_request\<lparr>body_text := Some []\<rparr>" and P = example_platform]
    parseRequestBody_decodes
      [where request = example_request and P = example_platform
         and bodyText = \<open>''{"data":{"subject":"cats"}}''\<close>
         and m = "[''data'' \<mapsto> JObj [''subject'' \<mapsto> JStr ''cats'']]"
         and d = "JObj [''subject'' \<mapsto> JStr ''cats'']"]
    parseRequestBody_decodes
      [where request = \<open>example_request\<lparr>body_text := Some ''["cats"]''\<rparr>\<close>
         and P = example_platform and bodyText = \<open>''["cats"]''\<close>
         and parsed = "JArr [JStr ''cats'']"]
  by (simp add: example_defs)

text \<open>
  C4. For every non-empty request body that \<open>JSON.parse\<close> rejects, decoding fails with a
  \<open>UserFacingError\<close> of status \<open>INVALID_ARGUMENT\<close> and message "Invalid JSON in request body";
  and whenever decoding fails, on any input, it fails with exactly this error.
\<close>

theorem parseRequestBody_failure:
  "(body_text request = Some bodyText \<and> bodyText \<noteq> [] \<and> JSON_parse P bodyText = None \<longrightarrow>
      parseRequestBody P request =
        Inl (UserFacingError ''INVALID_ARGUMENT'' ''Invalid JSON in request body'')) \<and>
   (\<forall>e. parseRequestBody P request = Inl e \<longrightarrow>
      e = UserFacingError ''INVALID_ARGUMENT'' ''Invalid JSON in request body'')"
  by (auto simp: parseRequestBody_def split: option.splits if_splits)

theorem parseRequestBody_failure_witness:
  \<open>JSON_parse example_platform ''{"data":'' = None \<and>
   parseRequestBody example_platform (example_request\<lparr>body_text := Some ''{"data":''\<rparr>) =
     Inl (UserFacingError ''INVALID_ARGUMENT'' ''Invalid JSON in request body'')\<close>
  using parseRequestBody_failure
      [where request = \<open>example_request\<lparr>body_text := Some ''{"data":''\<rparr>\<close>
         and bodyText = \<open>''{"data":''\<close> and P = example_platform, THEN conjunct1]
  by (simp add: example_defs)

section \<open>Properties of the CORS policy builder\<close>

lemma getRequestOrigin_nonempty: "getRequestOrigin request \<noteq> Some []"
  by (simp add: getRequestOrigin_def split: option.splits)

text \<open>
  C5. The request origin is what \<open>getRequestOrigin\<close> reads from the \<open>Origin\<close> header (an empty
  header value counts as no origin). For every policy whose origin is a list and every
  request, the built header map binds \<open>Access-Control-Allow-Origin\<close> to a value exactly when
  that value is the request origin and a member of the list; with no request origin, or
  one outside the list, the header is not bound. For every policy whose origin is a
  single string, the header is bound to that string.
\<close>

theorem cors_allow_origin:
  "(origin c = Some (OriginList allowed) \<longrightarrow>
      (\<forall>ro. buildCorsHeaders P (Some (Cors c)) (getRequestOrigin request)
              ''Access-Control-Allow-Origin'' = Some ro
            \<longleftrightarrow> getRequestOrigin request = Some ro \<and> ro \<in> set allowed) \<and>
      (getRequestOrigin request = None \<or>
       (\<exists>ro. getRequestOrigin request = Some ro \<and> ro \<notin> set allowed) \<longrightarrow>
         buildCorsHeaders P (Some (Cors c)) (getRequestOrigin request)
           ''Access-Control-Allow-Origin'' = None)) \<and>
   (origin c = Some (OriginString og) \<longrightarrow>
      buildCorsHeaders P (Some (Cors c)) (getRequestOrigin request)
        ''Access-Control-Allow-Origin'' = Some og)"
  using getRequestOrigin_nonempty [of request]
  by (auto simp: buildCorsHeaders_def Let_def split: option.splits)

theorem cors_allow_origin_witness:
  "getRequestOrigin example_request = Some ''https://a.com'' \<and>
   buildCorsHeaders example_platform
     (Some (Cors (default_CorsOptions\<lparr>origin := Some (OriginList [''https://a.com''])\<rparr>)))
     (getRequestOrigin example_request) ''Access-Control-Allow-Origin'' = Some ''https://a.com'' \<and>
   buildCorsHeaders example_platform
     (Some (Cors (default_CorsOptions\<lparr>origin := Some (OriginList [''https://b.com''])\<rparr>)))
     (getRequestOrigin example_request) ''Access-Control-Allow-Origin'' = None \<and>
   buildCorsHeaders example_platform
     (Some (Cors (default_CorsOptions\<lparr>origin := Some (OriginString ''*'')\<rparr>)))
     (getRequestOrigin example_request) ''Access-Control-Allow-Origin'' = Some ''*''"
  using
    cors_allow_origin
      [where c = "default_CorsOptions\<lparr>origin := Some (OriginList [''https://a.com''])\<rparr>"
         and allowed = "[''https://a.com'']" and request = example_request
         and P = example_platform]
    cors_allow_origin
      [where c = "default_CorsOptions\<lparr>origin := Some (OriginList [''https://b.com''])\<rparr>"
         and allowed = "[''https://b.com'']" and request = example_request
         and P = example_platform]
    cors_allow_origin
      [where c = "default_CorsOptions\<lparr>origin := Some (OriginString ''*'')\<rparr>"
         and og = "''*''" and request = example_request and P = example_platform]
  by (simp add: getRequestOrigin_def Headers_get_def example_request_def)

section \<open>Properties of the handlers\<close>

text \<open>
  C6. For every request with method \<open>OPTIONS\<close>, every configuration (with or without a
  context provider, streaming or not) and every flow, the handler returns status 204 with
  exactly the headers computed by the CORS builder and no body; the world state is
  unchanged and the response depends on neither the request body, the context provider
  nor the flow, so none of them has been used.
\<close>

theorem options_preflight:
  "http_method request = ''OPTIONS'' \<Longrightarrow>
   standardHandler P opts flow request azureContext s =
     (Inr \<lparr>status = 204,
           response_headers = buildCorsHeaders P (cors opts) (getRequestOrigin request),
           jsonBody = None, body = None\<rparr>, s) \<and>
   streamingHandler P opts flow request azureContext s =
     (Inr \<lparr>status = 204,
           response_headers = buildCorsHeaders P (cors opts) (getRequestOrigin request),
           jsonBody = None, body = None\<rparr>, s) \<and>
   handler P opts flow request azureContext s =
     (Inr \<lparr>status = 204,
           response_headers = buildCorsHeaders P (cors opts) (getRequestOrigin request),
           jsonBody = None, body = None\<rparr>, s)"
  by (simp add: standardHandler_def streamingHandler_def handler_def)

theorem options_preflight_witness:
  "http_method (example_request\<lparr>http_method := ''OPTIONS''\<rparr>) = ''OPTIONS'' \<and>
   handler example_platform
     (override_opts\<lparr>contextProvider := Some denies, streaming := False\<rparr>) failing_flow
     (example_request\<lparr>http_method := ''OPTIONS''\<rparr>) example_context 0 =
     (Inr \<lparr>status = 204,
           response_headers = buildCorsHeaders example_platform None (Some ''https://a.com''),
           jsonBody = None, body = None\<rparr>, 0) \<and>
   handler example_platform
     (override_opts\<lparr>contextProvider := Some denies, streaming := True\<rparr>) failing_flow
     (example_request\<lparr>http_method := ''OPTIONS''\<rparr>) example_context 0 =
     (Inr \<lparr>status = 204,
           response_headers = buildCorsHeaders example_platform None (Some ''https://a.com''),
           jsonBody = None, body = None\<rparr>, 0)"
  using
    options_preflight
      [where request = "example_request\<lparr>http_method := ''OPTIONS''\<rparr>" and P = example_platform
         and opts = "override_opts\<lparr>contextProvider := Some denies, streaming := False\<rparr>"
         and flow = failing_flow and azureContext = example_context and s = 0]
    options_preflight
      [where request = "example_request\<lparr>http_method := ''OPTIONS''\<rparr>" and P = example_platform
         and opts = "override_opts\<lparr>contextProvider := Some denies, streaming := True\<rparr>"
         and flow = failing_flow and azureContext = example_context and s = 0]
  by (simp add: getRequestOrigin_def Headers_get_def example_request_def override_opts_def)

text \<open>
  C2. For every configuration with \<open>streaming\<close> set and every request (other than the
  preflight) whose \<open>Accept\<close> header contains \<open>text/event-stream\<close>: when the body decodes, the
  context resolves and the streaming execution of the flow yields the chunks
  \<open>c1 .. cn\<close> and then the final output, the response has status 200 and its stream
  holds, in order, one record \<open>data: JSON.stringify({message: ci})\n\n\<close> per chunk followed
  by the record \<open>data: JSON.stringify({result: output})\n\n\<close>, and is closed.
\<close>

theorem streaming_success_body:
  assumes "streaming opts"
    and "http_method request \<noteq> ''OPTIONS''"
    and "Headers_get (headers request) ''accept'' = Some accept"
    and "String_includes accept ''text/event-stream''"
    and "parseRequestBody P request = Inr input"
    and "resolveActionContext opts request azureContext input s = (Inr actionContext, s1)"
    and "stream flow input actionContext s1 = ((chunks, Inr result), s2)"
  shows "handler P opts flow request azureContext s =
           (Inr \<lparr>status = 200,
                 response_headers =
                   (buildCorsHeaders P (cors opts) (getRequestOrigin request))
                     (''Content-Type'' \<mapsto> ''text/event-stream'',
                      ''Cache-Control'' \<mapsto> ''no-cache'',
                      ''Connection'' \<mapsto> ''keep-alive''),
                 jsonBody = None,
                 body = Some (ReadableStream
                   (map (\<lambda>chunk. ''data: '' @ JSON_stringify P (JObj [''message'' \<mapsto> chunk])
                                  @ ''\<newline>\<newline>'') chunks @
                    [''data: '' @ JSON_stringify P (JObj [''result'' \<mapsto> result])
                       @ ''\<newline>\<newline>''])
                   True)\<rparr>, s2)"
  using assms
  by (simp add: handler_def streamingHandler_def start_def sse_def)

theorem streaming_success_body_witness:
  \<open>streaming (override_opts\<lparr>onError := None\<rparr>) \<and>
   Headers_get (headers example_request) ''accept'' = Some ''application/json, text/event-stream'' \<and>
   String_includes ''application/json, text/event-stream'' ''text/event-stream'' \<and>
   parseRequestBody example_platform example_request = Inr (JObj [''subject'' \<mapsto> JStr ''cats'']) \<and>
   map_sum id status (fst (handler example_platform (override_opts\<lparr>onError := None\<rparr>) joke_flow
                             example_request example_context 0)) = Inr 200 \<and>
   map_sum id body (fst (handler example_platform (override_opts\<lparr>onError := None\<rparr>) joke_flow
                           example_request example_context 0)) =
     Inr (Some (ReadableStream
       [''data: {"message":"a"}\<newline>\<newline>'',
        ''data: {"message":"b"}\<newline>\<newline>'',
        ''data: {"result":{"joke":"a b"}}\<newline>\<newline>'']
       True))\<close>
  using streaming_success_body
    [where opts = "override_opts\<lparr>onError := None\<rparr>" and request = example_request
       and accept = "''application/json, text/event-stream''" and P = example_platform
       and input = "JObj [''subject'' \<mapsto> JStr ''cats'']"
       and azureContext = example_context and s = 0
       and actionContext = "buildAzureFunctionsContext example_request example_context"
       and ?s1.0 = 0 and flow = joke_flow
       and chunks = "[JStr ''a'', JStr ''b'']" and result = "JObj [''joke'' \<mapsto> JStr ''a b'']"
       and ?s2.0 = 1]
  by (simp add: parseRequestBody_def resolveActionContext_def Headers_get_def
      example_defs override_opts_def joke_flow_def)

text \<open>
  What the streaming path does with a failure raised after the stream has been opened,
  for every configuration: the record comes from \<open>getCallableJSON\<close>, whatever \<open>onError\<close> is.
\<close>

lemma streaming_failure_record:
  assumes "http_method request \<noteq> ''OPTIONS''"
    and "Headers_get (headers request) ''accept'' = Some accept"
    and "String_includes accept ''text/event-stream''"
    and "parseRequestBody P request = Inr input"
    and "resolveActionContext opts request azureContext input s = (Inr actionContext, s1)"
    and "stream flow input actionContext s1 = ((chunks, Inl error), s2)"
  shows "streamingHandler P opts flow request azureContext s =
           (Inr \<lparr>status = 200,
                 response_headers =
                   (buildCorsHeaders P (cors opts) (getRequestOrigin request))
                     (''Content-Type'' \<mapsto> ''text/event-stream'',
                      ''Cache-Control'' \<mapsto> ''no-cache'',
                      ''Connection'' \<mapsto> ''keep-alive''),
                 jsonBody = None,
                 body = Some (ReadableStream
                   (map (\<lambda>chunk. sse P (JObj [''message'' \<mapsto> chunk])) chunks @
                    [sse P (getCallableJSON P error)])
                   True)\<rparr>, s2)"
  using assms
  by (simp add: streamingHandler_def start_def)

text \<open>
  C1. Every failure is to pass through \<open>buildErrorResponse\<close>, also a failure raised after
  the stream has been opened, with the \<open>onError\<close> override applied. The code does not do
  this on the streaming path: with \<open>onError\<close> configured and a flow whose streaming fails
  after one chunk, the record written into the stream is the \<open>JSON.stringify\<close> of what
  \<open>getCallableJSON\<close> returns, for every \<open>JSON.stringify\<close>, and the callback has not run (the
  counter is still 0), while the buffered handler, on the same configuration and the same
  failure, answers with the override's message and has run the callback once.
\<close>

theorem inband_stream_error_bypasses_onError:
  \<open>map_sum id body
     (fst (streamingHandler (example_platform\<lparr>JSON_stringify := stringify\<rparr>) override_opts
             failing_flow example_request example_context 0)) =
     Inr (Some (ReadableStream
       [''data: '' @ stringify (JObj [''message'' \<mapsto> JStr ''a'']) @ ''\<newline>\<newline>'',
        ''data: '' @ stringify (JObj [''status'' \<mapsto> JStr ''INTERNAL'',
                                     ''message'' \<mapsto> JStr ''Internal Error'']) @ ''\<newline>\<newline>'']
       True)) \<and>
   snd (streamingHandler (example_platform\<lparr>JSON_stringify := stringify\<rparr>) override_opts
          failing_flow example_request example_context 0) = 0 \<and>
   map_sum id jsonBody
     (fst (standardHandler (example_platform\<lparr>JSON_stringify := stringify\<rparr>) override_opts
             failing_flow example_request example_context 0)) =
     Inr (Some (JObj [''error'' \<mapsto> JObj [''status'' \<mapsto> JStr ''INTERNAL'',
                                               ''message'' \<mapsto> JStr ''overridden'']])) \<and>
   snd (standardHandler (example_platform\<lparr>JSON_stringify := stringify\<rparr>) override_opts
          failing_flow example_request example_context 0) = 1\<close>
  by (simp add: streamingHandler_def standardHandler_def start_def sse_def
      parseRequestBody_def resolveActionContext_def buildErrorResponse_def
      Headers_get_def example_defs override_opts_def failing_flow_def example_onError_def)

section \<open>Properties of the context resolver\<close>

text \<open>
  C9. When the configured context provider succeeds, the resolved context is the
  platform-derived context overridden by the provider's context: every key the provider
  binds has the provider's value, every other key has the platform's. With no provider
  configured, the resolved context is the platform-derived context.
\<close>

theorem resolveActionContext_merge:
  "(contextProvider opts = Some provider \<and>
    provider (toRequestData request input) s = (Inr providerContext, s') \<longrightarrow>
      resolveActionContext opts request azureContext input s =
        (Inr (buildAzureFunctionsContext request azureContext ++ providerContext), s') \<and>
      (\<forall>k. (buildAzureFunctionsContext request azureContext ++ providerContext) k =
             (case providerContext k of
                Some v \<Rightarrow> Some v
              | None \<Rightarrow> buildAzureFunctionsContext request azureContext k))) \<and>
   (contextProvider opts = None \<longrightarrow>
      resolveActionContext opts request azureContext input s =
        (Inr (buildAzureFunctionsContext request azureContext), s))"
  by (auto simp: resolveActionContext_def Let_def map_add_def split: option.splits)

theorem resolveActionContext_merge_witness:
  "shadowing_provider (toRequestData example_request JNull) 0 =
     (Inr [''azureFunctions'' \<mapsto> JNull, ''auth'' \<mapsto> JStr ''guest''], 1) \<and>
   buildAzureFunctionsContext example_request example_context ''azureFunctions'' \<noteq> Some JNull \<and>
   resolveActionContext (override_opts\<lparr>contextProvider := Some shadowing_provider\<rparr>)
     example_request example_context JNull 0 =
     (Inr (buildAzureFunctionsContext example_request example_context ++
           [''azureFunctions'' \<mapsto> JNull, ''auth'' \<mapsto> JStr ''guest'']), 1) \<and>
   (buildAzureFunctionsContext example_request example_context ++
      [''azureFunctions'' \<mapsto> JNull, ''auth'' \<mapsto> JStr ''guest'']) ''azureFunctions'' = Some JNull \<and>
   resolveActionContext override_opts example_request example_context JNull 0 =
     (Inr (buildAzureFunctionsContext example_request example_context), 0)"
  using
    resolveActionContext_merge
      [where opts = "override_opts\<lparr>contextProvider := Some shadowing_provider\<rparr>"
         and provider = shadowing_provider and request = example_request and input = JNull
         and s = 0 and providerContext = "[''azureFunctions'' \<mapsto> JNull, ''auth'' \<mapsto> JStr ''guest'']"
         and s' = 1 and azureContext = example_context]
    resolveActionContext_merge
      [where opts = override_opts and request = example_request and input = JNull
         and s = 0 and azureContext = example_context]
  by (simp add: shadowing_provider_def override_opts_def buildAzureFunctionsContext_def)

section \<open>Properties of the context provider helpers\<close>

lemma normalizeHeaders_empty_key [simp]:
  "normalizeHeaders (example_request\<lparr>headers := [(''X-API-Key'', [])]\<rparr>) = [''x-api-key'' \<mapsto> []]"
  by (simp add: normalizeHeaders_def set_property_def)

lemma normalizeHeaders_example [simp]:
  "normalizeHeaders example_request =
     [''accept'' \<mapsto> ''application/json, text/event-stream'',
      ''origin'' \<mapsto> ''https://a.com'', ''x-api-key'' \<mapsto> ''secret'']"
  by (simp add: normalizeHeaders_def set_property_def example_request_def)

lemma toLowerCase_char_not_upper:
  "toLowerCase_char c \<notin> set ''ABCDEFGHIJKLMNOPQRSTUVWXYZ''"
  by (auto simp: toLowerCase_char_def split: option.splits if_splits)

lemma toLowerCase_not_upper:
  "c \<in> set ''ABCDEFGHIJKLMNOPQRSTUVWXYZ'' \<Longrightarrow> c \<notin> set (toLowerCase s)"
  using toLowerCase_char_not_upper by (auto simp: toLowerCase_def)

lemma toLowerCase_neq:
  "\<exists>c \<in> set n. c \<in> set ''ABCDEFGHIJKLMNOPQRSTUVWXYZ'' \<Longrightarrow> toLowerCase h \<noteq> n"
  using toLowerCase_not_upper by blast

lemma toLowerCase_neq_members:
  "toLowerCase h \<noteq> ''toString''"
  "toLowerCase h \<noteq> ''toLocaleString''"
  "toLowerCase h \<noteq> ''valueOf''"
  "toLowerCase h \<noteq> ''hasOwnProperty''"
  "toLowerCase h \<noteq> ''isPrototypeOf''"
  "toLowerCase h \<noteq> ''propertyIsEnumerable''"
  "toLowerCase h \<noteq> ''__defineGetter__''"
  "toLowerCase h \<noteq> ''__defineSetter__''"
  "toLowerCase h \<noteq> ''__lookupGetter__''"
  "toLowerCase h \<noteq> ''__lookupSetter__''"
  by (rule toLowerCase_neq, simp)+

text \<open>
  After lower-casing, a header name can only meet two members of \<open>Object.prototype\<close>:
  all the others have an upper-case letter in their names.
\<close>

lemma Object_prototype_toLowerCase:
  "Object_prototype (toLowerCase h) = None \<longleftrightarrow>
     toLowerCase h \<noteq> ''constructor'' \<and> toLowerCase h \<noteq> ''__proto__''"
  by (simp add: Object_prototype_def toLowerCase_neq_members)

text \<open>
  C7 (amended). For every header name \<open>h\<close> and expected value \<open>v\<close>, \<open>requireApiKey(h, v)\<close>
  fails with \<open>UNAUTHENTICATED\<close> and message "Missing required header: h" when the header is
  absent (and its lower-cased name is neither \<open>constructor\<close> nor \<open>__proto__\<close>, the names under
  which the lookup finds a member inherited from \<open>Object.prototype\<close>) or its value is the
  empty string; fails with \<open>PERMISSION_DENIED\<close> when the value is non-empty and differs from
  \<open>v\<close>; and resolves to \<open>{auth: {apiKey: value}}\<close> when the value is non-empty and equals
  \<open>v\<close>. (The header is looked up under the lower-cased name in the normalized headers.)
\<close>

theorem requireApiKey_expected_value:
  "((rd_headers request (toLowerCase headerName) = None \<and>
     toLowerCase headerName \<noteq> ''constructor'' \<and> toLowerCase headerName \<noteq> ''__proto__'') \<or>
    rd_headers request (toLowerCase headerName) = Some [] \<longrightarrow>
      requireApiKey headerName (ExpectedValue v) request s =
        (Inl (UserFacingError ''UNAUTHENTICATED''
                (''Missing required header: '' @ headerName)), s)) \<and>
   (rd_headers request (toLowerCase headerName) = Some apiKey \<and> apiKey \<noteq> [] \<and> apiKey \<noteq> v \<longrightarrow>
      requireApiKey headerName (ExpectedValue v) request s =
        (Inl (UserFacingError ''PERMISSION_DENIED'' ''Invalid API key''), s)) \<and>
   (rd_headers request (toLowerCase headerName) = Some v \<and> v \<noteq> [] \<longrightarrow>
      requireApiKey headerName (ExpectedValue v) request s =
        (Inr [''auth'' \<mapsto> JObj [''apiKey'' \<mapsto> JStr v]], s))"
  using Object_prototype_toLowerCase [of headerName]
  by (auto simp: requireApiKey_def get_property_def)

theorem requireApiKey_expected_value_witness:
  "requireApiKey ''x-api-KEY'' (ExpectedValue ''secret'')
     (toRequestData (example_request\<lparr>headers := []\<rparr>) JNull) (0::nat) =
     (Inl (UserFacingError ''UNAUTHENTICATED'' ''Missing required header: x-api-KEY''), 0) \<and>
   requireApiKey ''x-api-KEY'' (ExpectedValue ''other'') (toRequestData example_request JNull) (0::nat) =
     (Inl (UserFacingError ''PERMISSION_DENIED'' ''Invalid API key''), 0) \<and>
   requireApiKey ''x-api-KEY'' (ExpectedValue ''secret'') (toRequestData example_request JNull) (0::nat) =
     (Inr [''auth'' \<mapsto> JObj [''apiKey'' \<mapsto> JStr ''secret'']], 0)"
  using
    requireApiKey_expected_value
      [where request = "toRequestData (example_request\<lparr>headers := []\<rparr>) JNull"
         and headerName = "''x-api-KEY''" and v = "''secret''" and s = "0::nat"]
    requireApiKey_expected_value
      [where request = "toRequestData example_request JNull"
         and headerName = "''x-api-KEY''" and v = "''other''" and apiKey = "''secret''"
         and s = "0::nat"]
    requireApiKey_expected_value
      [where request = "toRequestData example_request JNull"
         and headerName = "''x-api-KEY''" and v = "''secret''" and s = "0::nat"]
  by (simp add: toRequestData_def normalizeHeaders_def set_property_def example_request_def)

text \<open>
  The claim as first stated (a present header whose value differs from \<open>v\<close> is rejected
  with \<open>PERMISSION_DENIED\<close>, an equal one is accepted) fails for the empty value.
\<close>

theorem requireApiKey_empty_value_counterexample:
  "rd_headers (toRequestData (example_request\<lparr>headers := [(''X-API-Key'', [])]\<rparr>) JNull)
     (toLowerCase ''X-API-Key'') = Some [] \<and>
   [] \<noteq> ''secret'' \<and>
   requireApiKey ''X-API-Key'' (ExpectedValue ''secret'')
     (toRequestData (example_request\<lparr>headers := [(''X-API-Key'', [])]\<rparr>) JNull) (0::nat) =
     (Inl (UserFacingError ''UNAUTHENTICATED'' ''Missing required header: X-API-Key''), 0) \<and>
   requireApiKey ''X-API-Key'' (ExpectedValue ''secret'')
     (toRequestData (example_request\<lparr>headers := [(''X-API-Key'', [])]\<rparr>) JNull) (0::nat) \<noteq>
     (Inl (UserFacingError ''PERMISSION_DENIED'' ''Invalid API key''), 0) \<and>
   requireApiKey ''X-API-Key'' (ExpectedValue [])
     (toRequestData (example_request\<lparr>headers := [(''X-API-Key'', [])]\<rparr>) JNull) (0::nat) =
     (Inl (UserFacingError ''UNAUTHENTICATED'' ''Missing required header: X-API-Key''), 0)"
  by (simp add: requireApiKey_def get_property_def toRequestData_def)

text \<open>
  The two excluded names: with no such header in the request, the lookup returns the
  inherited member, which is truthy and equal to no string, so \<open>requireApiKey\<close> rejects
  the request with \<open>PERMISSION_DENIED\<close> whatever the expected value is, and \<open>requireHeader\<close>
  without an expected value lets it through. A header named \<open>__proto__\<close> never becomes a
  property of the normalized headers.
\<close>

lemma inherited_member_lookup:
  "rd_headers request (toLowerCase headerName) = None \<Longrightarrow>
   toLowerCase headerName = ''constructor'' \<or> toLowerCase headerName = ''__proto__'' \<Longrightarrow>
   requireApiKey headerName (ExpectedValue v) request s =
     (Inl (UserFacingError ''PERMISSION_DENIED'' ''Invalid API key''), s) \<and>
   requireHeader headerName None request s = (Inr Map.empty, s) \<and>
   requireHeader headerName (Some v) request s =
     (Inl (UserFacingError ''PERMISSION_DENIED'' (''Invalid value for header: '' @ headerName)), s)"
  by (auto simp: requireApiKey_def requireHeader_def get_property_def Object_prototype_def)

lemma inherited_member_examples:
  "requireApiKey ''constructor'' (ExpectedValue ''secret'')
     (toRequestData (example_request\<lparr>headers := []\<rparr>) JNull) (0::nat) =
     (Inl (UserFacingError ''PERMISSION_DENIED'' ''Invalid API key''), 0)"
  "requireHeader ''constructor'' None
     (toRequestData (example_request\<lparr>headers := []\<rparr>) JNull) (0::nat) = (Inr Map.empty, 0)"
  "normalizeHeaders (example_request\<lparr>headers := [(''__proto__'', ''x'')]\<rparr>) = Map.empty"
  by (simp_all add: requireApiKey_def requireHeader_def get_property_def Object_prototype_def
      toRequestData_def normalizeHeaders_def set_property_def toLowerCase_def
      toLowerCase_char_def)

text \<open>
  C10. For every header name \<open>h\<close>, \<open>requireHeader(h, v?)\<close> and \<open>requireApiKey(h, ...)\<close> applied
  to a request whose header \<open>h\<close> is present with the empty string as its value fail with
  \<open>UNAUTHENTICATED\<close> and the message "Missing required header: h", whatever expected value
  or validator is configured; the validator is not run.
\<close>

theorem empty_header_is_missing:
  "rd_headers request (toLowerCase headerName) = Some [] \<Longrightarrow>
   requireHeader headerName expectedValue request s =
     (Inl (UserFacingError ''UNAUTHENTICATED'' (''Missing required header: '' @ headerName)), s) \<and>
   requireApiKey headerName expectedValueOrValidator request s =
     (Inl (UserFacingError ''UNAUTHENTICATED'' (''Missing required header: '' @ headerName)), s)"
  by (simp add: requireHeader_def requireApiKey_def get_property_def)

theorem empty_header_is_missing_witness:
  "rd_headers (toRequestData (example_request\<lparr>headers := [(''X-API-Key'', [])]\<rparr>) JNull)
     (toLowerCase ''X-API-Key'') = Some [] \<and>
   requireHeader ''X-API-Key'' (Some ''secret'')
     (toRequestData (example_request\<lparr>headers := [(''X-API-Key'', [])]\<rparr>) JNull) (0::nat) =
     (Inl (UserFacingError ''UNAUTHENTICATED'' ''Missing required header: X-API-Key''), 0) \<and>
   requireApiKey ''X-API-Key'' (ExpectedValue ''secret'')
     (toRequestData (example_request\<lparr>headers := [(''X-API-Key'', [])]\<rparr>) JNull) (0::nat) =
     (Inl (UserFacingError ''UNAUTHENTICATED'' ''Missing required header: X-API-Key''), 0)"
  using empty_header_is_missing
    [where request = "toRequestData (example_request\<lparr>headers := [(''X-API-Key'', [])]\<rparr>) JNull"
       and headerName = "''X-API-Key''" and expectedValue = "Some ''secret''"
       and expectedValueOrValidator = "ExpectedValue ''secret''" and s = "0::nat"]
  by (simp add: toRequestData_def)

lemma anyOf_loop_first_success:
  "i < length providers \<Longrightarrow>
   (\<forall>j<i. \<exists>e. (providers ! j) request (st j) = (Inl e, st (Suc j))) \<Longrightarrow>
   (providers ! i) request (st i) = (Inr ctx, s') \<Longrightarrow>
   anyOf_loop P providers lastError request (st 0) = (Inr ctx, s')"
proof (induction providers arbitrary: i st lastError)
  case Nil
  then show ?case by simp
next
  case (Cons p ps)
  show ?case
  proof (cases i)
    case 0
    with Cons.prems show ?thesis by simp
  next
    case (Suc i')
    from Cons.prems(2) Suc obtain e where e: "p request (st 0) = (Inl e, st (Suc 0))"
      by fastforce
    have "anyOf_loop P ps (Some (asError P e)) request ((\<lambda>j. st (Suc j)) 0) = (Inr ctx, s')"
    proof (rule Cons.IH [of i'])
      show "i' < length ps" using Cons.prems(1) Suc by simp
      show "\<forall>j<i'. \<exists>e. (ps ! j) request (st (Suc j)) = (Inl e, st (Suc (Suc j)))"
        using Cons.prems(2) Suc by fastforce
      show "(ps ! i') request (st (Suc i')) = (Inr ctx, s')"
        using Cons.prems(3) Suc by simp
    qed
    with e show ?thesis by simp
  qed
qed

lemma anyOf_loop_all_fail:
  "providers \<noteq> [] \<Longrightarrow>
   (\<forall>j<length providers. (providers ! j) request (st j) = (Inl (es j), st (Suc j))) \<Longrightarrow>
   anyOf_loop P providers lastError request (st 0) =
     (Inl (asError P (es (length providers - 1))), st (length providers))"
proof (induction providers arbitrary: st es lastError)
  case Nil
  then show ?case by simp
next
  case (Cons p ps)
  from Cons.prems(2) have p: "p request (st 0) = (Inl (es 0), st (Suc 0))"
    by fastforce
  show ?case
  proof (cases ps)
    case Nil
    with p show ?thesis by simp
  next
    case (Cons q qs)
    have "anyOf_loop P ps (Some (asError P (es 0))) request ((\<lambda>j. st (Suc j)) 0) =
            (Inl (asError P ((\<lambda>j. es (Suc j)) (length ps - 1))), (\<lambda>j. st (Suc j)) (length ps))"
    proof (rule Cons.IH)
      show "ps \<noteq> []" using Cons by simp
      show "\<forall>j<length ps. (ps ! j) request (st (Suc j)) = (Inl (es (Suc j)), st (Suc (Suc j)))"
        using Cons.prems(2) by fastforce
    qed
    with p Cons show ?thesis by simp
  qed
qed

text \<open>
  C8 (amended). For every non-empty list of providers, \<open>anyOf\<close> runs them in order on the
  world state; if the first \<open>i\<close> providers fail and provider \<open>i\<close> succeeds, its context is
  returned as it is, in the state that provider left (no later provider runs); if every
  provider fails, the failure of the last provider is propagated, unchanged when it is an
  \<open>Error\<close> and otherwise wrapped as \<open>new Error(String(value))\<close>.
\<close>

theorem anyOf_first_success_or_last_failure:
  "(i < length providers \<and>
    (\<forall>j<i. \<exists>e. (providers ! j) request (st j) = (Inl e, st (Suc j))) \<and>
    (providers ! i) request (st i) = (Inr ctx, s') \<longrightarrow>
      anyOf P providers request (st 0) = (Inr ctx, s')) \<and>
   (providers \<noteq> [] \<and>
    (\<forall>j<length providers. (providers ! j) request (st j) = (Inl (es j), st (Suc j))) \<longrightarrow>
      anyOf P providers request (st 0) =
        (Inl (asError P (es (length providers - 1))), st (length providers)) \<and>
      (instanceofError (es (length providers - 1)) \<longrightarrow>
         asError P (es (length providers - 1)) = es (length providers - 1)))"
proof -
  have "instanceofError e \<longrightarrow> asError P e = e" for e
    by (cases e) simp_all
  then show ?thesis
    unfolding anyOf_def
    using anyOf_loop_first_success [of i providers request st ctx s' P None]
      anyOf_loop_all_fail [of providers request st es P None]
    by blast
qed

theorem anyOf_first_success_or_last_failure_witness:
  "anyOf example_platform [denies, grants_guest, throws_string]
     (toRequestData example_request JNull) 0 = (Inr [''auth'' \<mapsto> JStr ''guest''], 2) \<and>
   anyOf example_platform [throws_string, denies]
     (toRequestData example_request JNull) 0 =
     (Inl (UserFacingError ''PERMISSION_DENIED'' ''Invalid API key''), 2) \<and>
   anyOf example_platform [denies, throws_string]
     (toRequestData example_request JNull) 0 = (Inl (Error ''nope''), 2)"
  using
    anyOf_first_success_or_last_failure
      [where i = 1 and providers = "[denies, grants_guest, throws_string]"
         and request = "toRequestData example_request JNull" and st = "\<lambda>j. j"
         and ctx = "[''auth'' \<mapsto> JStr ''guest'']" and s' = 2 and P = example_platform]
    anyOf_first_success_or_last_failure
      [where providers = "[throws_string, denies]"
         and request = "toRequestData example_request JNull" and st = "\<lambda>j. j"
         and es = "\<lambda>j. if j = 0 then NonError (JStr ''nope'')
                        else UserFacingError ''PERMISSION_DENIED'' ''Invalid API key''"
         and P = example_platform]
    anyOf_first_success_or_last_failure
      [where providers = "[denies, throws_string]"
         and request = "toRequestData example_request JNull" and st = "\<lambda>j. j"
         and es = "\<lambda>j. if j = 0 then UserFacingError ''PERMISSION_DENIED'' ''Invalid API key''
                        else NonError (JStr ''nope'')"
         and P = example_platform]
  by (simp add: denies_def grants_guest_def throws_string_def less_Suc_eq
      example_platform_def example_String_of_def)

text \<open>
  The claim as first stated (the failure raised by the last provider is propagated) fails
  when that provider throws a value that is not an \<open>Error\<close>.
\<close>

theorem anyOf_non_Error_counterexample:
  "denies (toRequestData example_request JNull) 0 =
     (Inl (UserFacingError ''PERMISSION_DENIED'' ''Invalid API key''), 1) \<and>
   throws_string (toRequestData example_request JNull) 1 = (Inl (NonError (JStr ''nope'')), 2) \<and>
   anyOf example_platform [denies, throws_string] (toRequestData example_request JNull) 0 =
     (Inl (Error ''nope''), 2) \<and>
   anyOf example_platform [denies, throws_string] (toRequestData example_request JNull) 0 \<noteq>
     (Inl (NonError (JStr ''nope'')), 2)"
  by (simp add: anyOf_def denies_def throws_string_def example_platform_def example_String_of_def)

end
